theory Spec2Isabelle
  imports Main "HOL-Library.Word"
begin

unbundle bit_operations_syntax

section \<open>Locksmith (lksmith.c): a shallow embedding\<close>

text \<open>
  The development follows \<^verbatim>\<open>src/lksmith.c\<close> function by function. The two headers
  the file includes, \<^verbatim>\<open>bitfield.h\<close> and \<^verbatim>\<open>lksmith.h\<close>, are not part of the sources;
  what the code takes from them (the bitfield macros, \<^verbatim>\<open>LKSMITH_API_VERSION\<close>, the
  error codes) is either a parameter of the model or a definition marked as such.

  Undefined behaviour of the C program (an access outside an allocated block, a
  \<^verbatim>\<open>realloc\<close> of a pointer that is no block of the allocator, a conversion of a
  format without its argument) is the value \<open>None\<close> of an option type, or for
  \<^verbatim>\<open>lksmith_pthread_mutex_init\<close> the trace of the calls made before it; a C function
  that returns an error code returns it as a value.
\<close>

subsection \<open>Version utilities\<close>

text \<open>
  \<^verbatim>\<open>%d\<close> of a non-negative integer: its decimal digits, most significant first.
\<close>

definition digit_char :: "nat \<Rightarrow> char" where
  "digit_char d = ''0123456789'' ! d"

function string_of_nat :: "nat \<Rightarrow> string" where
  "string_of_nat n =
     (if n < 10 then [digit_char n]
      else string_of_nat (n div 10) @ [digit_char (n mod 10)])"
  by pat_completeness auto
termination
  by (relation "measure id") auto

declare string_of_nat.simps [simp del]

text \<open>
  The two arguments of the format string: \<^verbatim>\<open>(LKSMITH_API_VERSION >> 16) & 0xffff\<close> and
  \<^verbatim>\<open>LKSMITH_API_VERSION & 0xffff\<close>. The constant itself is declared in lksmith.h and
  is a parameter \<open>api\<close> here.
\<close>

definition version_major :: "32 word \<Rightarrow> nat" where
  "version_major api = unat (drop_bit 16 api AND 0xffff)"

definition version_minor :: "32 word \<Rightarrow> nat" where
  "version_minor api = unat (api AND 0xffff)"

definition version_text :: "32 word \<Rightarrow> string" where
  "version_text api =
     string_of_nat (version_major api) @ ''.'' @ string_of_nat (version_minor api)"

text \<open>
  \<^verbatim>\<open>snprintf(str, str_len, fmt, ...)\<close> for an output text \<open>s\<close>. It returns the number
  of characters the whole text needs; into a buffer of \<open>str_len > 0\<close> bytes it writes
  the first \<open>str_len - 1\<close> characters and a terminating NUL, into a buffer of length 0
  nothing. Whether the formatting itself fails is decided by the C library: the flag
  \<open>fails\<close>. On failure the return value is negative (\<open>-1\<close> here; the caller only tests
  its sign) and nothing is known to be written.
  The second component is the C string the buffer holds afterwards (\<open>None\<close>: the buffer
  was not written).
\<close>

definition c_snprintf :: "bool \<Rightarrow> 64 word \<Rightarrow> string \<Rightarrow> int \<times> string option" where
  "c_snprintf fails str_len s =
     (if fails then (- 1, None)
      else if str_len = 0 then (int (length s), None)
      else (int (length s), Some (take (unat str_len - 1) s)))"

definition EIO :: int where "EIO = 5"
definition ENAMETOOLONG :: int where "ENAMETOOLONG = 36"

text \<open>
  \<^verbatim>\<open>int lksmith_verion_to_str(uint32_t ver, char *str, size_t str_len)\<close>. The
  comparison \<^verbatim>\<open>res >= str_len\<close> is made in \<^verbatim>\<open>size_t\<close>: \<open>res\<close> is converted first.
\<close>

definition lksmith_verion_to_str ::
  "32 word \<Rightarrow> bool \<Rightarrow> 32 word \<Rightarrow> 64 word \<Rightarrow> int \<times> string option" where
  "lksmith_verion_to_str api fails ver str_len =
     (case c_snprintf fails str_len (version_text api) of
        (res, str) \<Rightarrow>
          if res < 0 then (- EIO, str)
          else if (word_of_int res :: 64 word) \<ge> str_len then (- ENAMETOOLONG, str)
          else (0, str))"


subsection \<open>Bitfields\<close>

text \<open>
  Modelled from the spec: the macros \<^verbatim>\<open>BITFIELD_MEM\<close>, \<^verbatim>\<open>BITFIELD_TEST\<close> and
  \<^verbatim>\<open>BITFIELD_SET\<close> of \<^verbatim>\<open>bitfield.h\<close>, which is missing from the sources. The spec
  describes the used-bitmap and the before-set as one bit per identifier, and
  \<^verbatim>\<open>lksmith.c\<close> itself computes the bytes of a bitfield of \<open>n\<close> bits as
  \<^verbatim>\<open>(n + 7) / 8\<close>; so bit \<open>i\<close> is bit \<open>i mod 8\<close> of byte \<open>i div 8\<close>. A bitfield is
  the list of the bytes of its block; the NULL pointer and a block of no bytes are both
  the empty list. Reading or writing a byte outside the block is undefined behaviour
  (\<open>None\<close>). The sizes and indices the code passes are never negative, so that the
  division of C and \<open>div\<close> agree on them.
\<close>

definition BITFIELD_MEM :: "int \<Rightarrow> int" where
  "BITFIELD_MEM n = (n + 7) div 8"

definition BITFIELD_TEST :: "8 word list \<Rightarrow> int \<Rightarrow> bool option" where
  "BITFIELD_TEST bf i =
     (if 0 \<le> i \<and> nat (i div 8) < length bf
      then Some (bit (bf ! nat (i div 8)) (nat (i mod 8)))
      else None)"

definition BITFIELD_SET :: "8 word list \<Rightarrow> int \<Rightarrow> 8 word list option" where
  "BITFIELD_SET bf i =
     (if 0 \<le> i \<and> nat (i div 8) < length bf
      then Some (bf[nat (i div 8) := set_bit (nat (i mod 8)) (bf ! nat (i div 8))])
      else None)"

subsection \<open>The registry: \<^verbatim>\<open>g_locks\<close>, \<^verbatim>\<open>g_locks_size\<close>, \<^verbatim>\<open>g_locks_used\<close>\<close>

datatype ptr = NULL | Ptr nat

record registry =
  g_locks :: "ptr list"
  g_locks_size :: int
  g_locks_used :: "8 word list"

text \<open>
  The state of a freshly started process: the three statics are zero-initialised.
\<close>

definition registry_init :: registry where
  "registry_init = \<lparr>g_locks = [], g_locks_size = 0, g_locks_used = []\<rparr>"

text \<open>
  A registry is well formed when the size is a size, the bitmap block has
  \<^verbatim>\<open>BITFIELD_MEM(g_locks_size)\<close> bytes and the table has \<^verbatim>\<open>g_locks_size\<close> slots.
\<close>

definition registry_wf :: "registry \<Rightarrow> bool" where
  "registry_wf r \<longleftrightarrow>
     0 \<le> g_locks_size r \<and>
     length (g_locks_used r) = nat (BITFIELD_MEM (g_locks_size r)) \<and>
     length (g_locks r) = nat (g_locks_size r)"

text \<open>
  \<^verbatim>\<open>realloc(p, n)\<close> on a block of elements \<open>old\<close>: the C library either fails
  (\<open>None\<close>) or hands back a block of \<open>n\<close> elements that starts with the old contents;
  what the bytes past the old contents hold is the allocator's business, given by
  \<open>junk\<close>.
\<close>

definition c_realloc :: "'a list \<Rightarrow> nat \<Rightarrow> (nat \<Rightarrow> 'a) option \<Rightarrow> 'a list option" where
  "c_realloc old n mem =
     (case mem of
        None \<Rightarrow> None
      | Some junk \<Rightarrow> Some (map (\<lambda>k. if k < length old then old ! k else junk k) [0..<n]))"

text \<open>
  The error codes of lksmith.h that the file uses. Their numeric values are not in the
  sources; the code relies on their being distinct (they label the cases of one
  \<^verbatim>\<open>switch\<close>), non-zero (\<^verbatim>\<open>if (ret)\<close>) and, for the allocator, negative
  (\<^verbatim>\<open>if (next_lock_id < 0)\<close>).
\<close>

datatype lksmith_error = LKSMITH_ERROR_OOM | LKSMITH_ERROR_CREATE_WHILE_IN_USE

subsection \<open>\<^verbatim>\<open>lksmith_alloc_next_lock_id\<close>\<close>

text \<open>
  The scan loop
  \<^verbatim>\<open>for (i = 0; i < g_locks_size; i++) { if (!BITFIELD_TEST(g_locks_used, i)) break; }\<close>
  from the value \<open>i\<close> of the loop variable on. Its result is the value of \<open>i\<close> after
  the loop.
\<close>

function scan_locks_used :: "8 word list \<Rightarrow> int \<Rightarrow> int \<Rightarrow> int option" where
  "scan_locks_used used n i =
     (if i < n then
        (case BITFIELD_TEST used i of
           None \<Rightarrow> None
         | Some b \<Rightarrow> if \<not> b then Some i else scan_locks_used used n (i + 1))
      else Some i)"
  by pat_completeness auto
termination
  by (relation "measure (\<lambda>(used, n, i). nat (n - i))") auto

declare scan_locks_used.simps [simp del]

text \<open>
  The body of \<^verbatim>\<open>if (i > g_locks_size) { ... }\<close>: both blocks are reallocated for \<open>i\<close>
  entries. The result is the error the function returns from inside the branch, if
  any, and the registry as the branch leaves it. \<open>used_mem\<close> and \<open>locks_mem\<close> are what
  the two calls of \<^verbatim>\<open>realloc\<close> find.
\<close>

definition grow_locks ::
  "(nat \<Rightarrow> 8 word) option \<Rightarrow> (nat \<Rightarrow> ptr) option \<Rightarrow> registry \<Rightarrow> int \<Rightarrow>
     lksmith_error option \<times> registry" where
  "grow_locks used_mem locks_mem r i =
     (case (if BITFIELD_MEM i > BITFIELD_MEM (g_locks_size r)
            then (case c_realloc (g_locks_used r) (nat (BITFIELD_MEM i)) used_mem of
                    None \<Rightarrow> None
                  | Some new_locks_used \<Rightarrow> Some (r\<lparr>g_locks_used := new_locks_used\<rparr>))
            else Some r) of
        None \<Rightarrow> (Some LKSMITH_ERROR_OOM, r)
      | Some r1 \<Rightarrow>
          (case c_realloc (g_locks r1) (nat i) locks_mem of
             None \<Rightarrow> (Some LKSMITH_ERROR_OOM, r1)
           | Some new_locks \<Rightarrow> (None, r1\<lparr>g_locks := new_locks, g_locks_size := i\<rparr>)))"

text \<open>
  \<^verbatim>\<open>static int lksmith_alloc_next_lock_id(void)\<close>. The result is \<open>None\<close> when the call
  has undefined behaviour; otherwise the value returned (\<open>Inl\<close> an error code, \<open>Inr\<close>
  the lock id) and the registry afterwards.
\<close>

definition lksmith_alloc_next_lock_id ::
  "(nat \<Rightarrow> 8 word) option \<Rightarrow> (nat \<Rightarrow> ptr) option \<Rightarrow> registry \<Rightarrow>
     ((lksmith_error + int) \<times> registry) option" where
  "lksmith_alloc_next_lock_id used_mem locks_mem r =
     (case scan_locks_used (g_locks_used r) (g_locks_size r) 0 of
        None \<Rightarrow> None
      | Some i \<Rightarrow>
          (case (if i > g_locks_size r then grow_locks used_mem locks_mem r i
                 else (None, r)) of
             (Some e, r1) \<Rightarrow> Some (Inl e, r1)
           | (None, r1) \<Rightarrow>
               (case BITFIELD_SET (g_locks_used r1) i of
                  None \<Rightarrow> None
                | Some used \<Rightarrow> Some (Inr i, r1\<lparr>g_locks_used := used\<rparr>))))"

text \<open>
  Every bit below the capacity \<^verbatim>\<open>g_locks_size\<close> is set.
\<close>

definition all_used :: "registry \<Rightarrow> bool" where
  "all_used r \<longleftrightarrow>
     (\<forall>j \<in> {0 ..< g_locks_size r}. BITFIELD_TEST (g_locks_used r) j = Some True)"


subsection \<open>Lock records: \<^verbatim>\<open>struct lksmith_lock_data\<close>\<close>

text \<open>
  The field \<^verbatim>\<open>id\<close> is \<open>lock_id\<close> here. \<open>before\<close> is the flexible array member: the
  bytes of the block that follow the header.
\<close>

record lksmith_lock_data =
  nlock :: "64 word"
  lock_id :: "32 word"
  before_size :: int
  before :: "8 word list"

definition LKSMITH_BEFORE_MIN :: int where
  "LKSMITH_BEFORE_MIN = 16"

text \<open>
  \<^verbatim>\<open>sizeof(struct lksmith_lock_data)\<close>: a \<^verbatim>\<open>uint64_t\<close>, a \<^verbatim>\<open>uint32_t\<close> and an
  \<^verbatim>\<open>int\<close>, 16 bytes on the usual 64-bit data model.
\<close>

definition sizeof_lock_data :: "64 word" where
  "sizeof_lock_data = 16"

text \<open>
  What a block returned by \<^verbatim>\<open>realloc\<close> holds when it is read as a lock record: the
  three header fields and, at index \<open>k\<close> of the flexible array, the byte
  \<open>blk_bytes k\<close>.
\<close>

record heap_block =
  blk_nlock :: "64 word"
  blk_id :: "32 word"
  blk_before_size :: int
  blk_bytes :: "nat \<Rightarrow> 8 word"

text \<open>
  \<^verbatim>\<open>realloc(p, n)\<close> for a pointer \<open>p\<close> that is not NULL. The call has undefined
  behaviour (\<open>None\<close>) unless \<open>p\<close> is a block that the allocator returned earlier;
  for such a block it finds \<open>mem\<close>: nothing when it fails, or the new block.
\<close>

definition c_realloc_block :: "bool \<Rightarrow> 'a option \<Rightarrow> 'a option option" where
  "c_realloc_block from_allocator mem = (if from_allocator then Some mem else None)"

text \<open>
  \<^verbatim>\<open>memset(&bytes[off], 0, len)\<close> on a block of bytes: a write of \<open>len\<close> bytes that
  leaves the block is undefined behaviour.
\<close>

definition c_memset :: "8 word list \<Rightarrow> nat \<Rightarrow> nat \<Rightarrow> 8 word list option" where
  "c_memset bytes off len =
     (if len = 0 then Some bytes
      else if off + len \<le> length bytes
      then Some (take off bytes @ replicate len 0 @ drop (off + len) bytes)
      else None)"

text \<open>
  \<^verbatim>\<open>static int lksmith_realloc_lock_data(struct lksmith_lock_data **data, int before_size)\<close>.
  \<open>data\<close> is the record \<^verbatim>\<open>*data\<close> points to, \<open>None\<close> for the NULL pointer, and \<open>mem\<close> is
  what the allocator would find. The result is \<open>None\<close> for undefined behaviour, \<open>Inl\<close>
  the error code returned, or \<open>Inr\<close> the address stored into \<^verbatim>\<open>*data\<close> and the record
  there when the function returns 0.

  Line 107 is \<^verbatim>\<open>new_data = realloc(data, new_size)\<close>: the pointer handed to
  \<^verbatim>\<open>realloc\<close> is the parameter \<^verbatim>\<open>data\<close> itself, the \<^verbatim>\<open>struct lksmith_lock_data **\<close>,
  not \<^verbatim>\<open>*data\<close>. The function is static and its one caller (line 180) passes
  \<^verbatim>\<open>&data\<close>, the address of a local variable, which is no block of the allocator:
  this is the \<open>False\<close> below. The lines after the call are translated as they stand;
  \<open>new_size\<close>, \<open>old_size\<close>, \<open>old_byte_size\<close> and \<open>new_byte_size\<close> are \<^verbatim>\<open>size_t\<close>, and
  so is the length passed to \<^verbatim>\<open>memset\<close>.
\<close>

definition lksmith_realloc_lock_data ::
  "(nat \<times> heap_block) option \<Rightarrow> lksmith_lock_data option \<Rightarrow> int \<Rightarrow>
     (lksmith_error + nat \<times> lksmith_lock_data) option" where
  "lksmith_realloc_lock_data mem data new_before_size =
     (let new_size = sizeof_lock_data + word_of_int (BITFIELD_MEM new_before_size) :: 64 word;
          old_size = (case data of
                        Some d \<Rightarrow> word_of_int (before_size d)
                      | None \<Rightarrow> 0) :: 64 word;
          nbytes = nat (BITFIELD_MEM new_before_size)
      in case c_realloc_block False mem of
           None \<Rightarrow> None
         | Some None \<Rightarrow> Some (Inl LKSMITH_ERROR_OOM)
         | Some (Some (a, blk)) \<Rightarrow>
             if old_size = 0 then
               Some (Inr (a, \<lparr>nlock = 0, lock_id = 0, before_size = new_before_size,
                               before = replicate nbytes 0\<rparr>))
             else
               (let old_byte_size = (old_size + 7) div 8;
                    new_byte_size = (new_size + 7) div 8;
                    new_data = \<lparr>nlock = blk_nlock blk, lock_id = blk_id blk,
                                before_size = blk_before_size blk,
                                before = map (blk_bytes blk) [0..<nbytes]\<rparr>
                in if new_byte_size > old_byte_size then
                     (case c_memset (before new_data) (unat old_byte_size)
                             (unat (new_byte_size - word_of_int new_before_size)) of
                        None \<Rightarrow> None
                      | Some bytes \<Rightarrow>
                          Some (Inr (a, new_data\<lparr>before := bytes,
                                                   before_size := new_before_size\<rparr>)))
                   else Some (Inr (a, new_data\<lparr>before_size := new_before_size\<rparr>))))"

subsection \<open>\<^verbatim>\<open>lksmith_pthread_mutex_init\<close>\<close>

text \<open>
  The state the function works on: the registry, the heap of lock records by address
  (\<open>None\<close>: no live block there), and the trace of the calls it makes on
  \<^verbatim>\<open>g_internal_lock\<close> and of the error callback, in order.
\<close>

datatype event = MUTEX_LOCK | MUTEX_UNLOCK | ERROR_CB lksmith_error

record lksmith_state =
  reg :: registry
  heap :: "nat \<Rightarrow> lksmith_lock_data option"
  trace :: "event list"

text \<open>
  The state of a freshly started process: the statics are zero-initialised, no lock
  record has been allocated and no call has been made.
\<close>

definition fresh_process :: lksmith_state where
  "fresh_process = \<lparr>reg = registry_init, heap = (\<lambda>a. None), trace = []\<rparr>"

definition EBUSY :: int where "EBUSY = 16"
definition ENOMEM :: int where "ENOMEM = 12"
definition EINVAL :: int where "EINVAL = 22"

text \<open>
  A call of \<^verbatim>\<open>snprintf\<close> has defined behaviour only when every conversion of the
  format has its argument. The three calls of \<^verbatim>\<open>lksmith_pthread_mutex_init\<close> each have
  one \<^verbatim>\<open>%s\<close>; the first (line 176) passes \<^verbatim>\<open>name\<close>, the other two (lines 183 and
  193) pass nothing.
\<close>

definition snprintf_defined :: "nat \<Rightarrow> nat \<Rightarrow> bool" where
  "snprintf_defined conversions arguments \<longleftrightarrow> conversions \<le> arguments"

text \<open>
  The code from the label \<^verbatim>\<open>error:\<close> on (lines 200 to 213): \<^verbatim>\<open>free(data)\<close>, the
  unlock, the callback and the \<^verbatim>\<open>switch\<close> on \<open>ret\<close>. \<open>data\<close> is the local pointer
  (\<open>NULL\<close> when no record was allocated). The \<^verbatim>\<open>default:\<close> case of the switch
  (\<^verbatim>\<open>EINVAL\<close>) has no value of \<open>ret\<close> that reaches it.
\<close>

definition init_error :: "lksmith_error \<Rightarrow> ptr \<Rightarrow> lksmith_state \<Rightarrow> int \<times> lksmith_state" where
  "init_error ret data s =
     (let s1 = (case data of NULL \<Rightarrow> s | Ptr a \<Rightarrow> s\<lparr>heap := (heap s)(a := None)\<rparr>);
          s2 = s1\<lparr>trace := trace s1 @ [MUTEX_UNLOCK, ERROR_CB ret]\<rparr>
      in ((case ret of
             LKSMITH_ERROR_CREATE_WHILE_IN_USE \<Rightarrow> EBUSY
           | LKSMITH_ERROR_OOM \<Rightarrow> ENOMEM), s2))"

text \<open>
  \<^verbatim>\<open>int lksmith_pthread_mutex_init(name, mutex, mutexattr)\<close>. \<open>info_data\<close> is the
  handle's metadata slot \<^verbatim>\<open>mutex->info.data\<close>. The result is \<open>Inr\<close> the value
  returned, the state and the slot afterwards, or, when the call reaches undefined
  behaviour, \<open>Inl\<close> the trace of the calls made up to that point.

  Line 188 is \<^verbatim>\<open>prev = __sync_val_compare_and_swap(&mutex->info.data, NULL)\<close>: the call
  names the value to compare with and no value to store, so the model reads the slot
  into \<open>prev\<close> and stores nothing. The text of the messages is not modelled: the
  callback event carries the code.
\<close>

definition lksmith_pthread_mutex_init ::
  "(nat \<Rightarrow> 8 word) option \<Rightarrow> (nat \<Rightarrow> ptr) option \<Rightarrow> (nat \<times> heap_block) option \<Rightarrow>
     lksmith_state \<Rightarrow> ptr \<Rightarrow> event list + int \<times> lksmith_state \<times> ptr" where
  "lksmith_pthread_mutex_init used_mem locks_mem data_mem s info_data =
     (let s1 = s\<lparr>trace := trace s @ [MUTEX_LOCK]\<rparr> in
      case lksmith_alloc_next_lock_id used_mem locks_mem (reg s1) of
        None \<Rightarrow> Inl (trace s1)
      | Some (res, r) \<Rightarrow>
          (let s2 = s1\<lparr>reg := r\<rparr> in
           case (case res of Inl e \<Rightarrow> None
                 | Inr i \<Rightarrow> if i < 0 then None else Some i) of
             None \<Rightarrow>
               if snprintf_defined 1 1 then
                 (case init_error LKSMITH_ERROR_OOM NULL s2 of
                    (rc, s') \<Rightarrow> Inr (rc, s', info_data))
               else Inl (trace s2)
           | Some next_lock_id \<Rightarrow>
               (case lksmith_realloc_lock_data data_mem None LKSMITH_BEFORE_MIN of
                  None \<Rightarrow> Inl (trace s2)
                | Some (Inl e) \<Rightarrow>
                    if snprintf_defined 1 0 then
                      (case init_error LKSMITH_ERROR_OOM NULL s2 of
                         (rc, s') \<Rightarrow> Inr (rc, s', info_data))
                    else Inl (trace s2)
                | Some (Inr (a, d)) \<Rightarrow>
                    (let s3 = s2\<lparr>heap := (heap s2)
                                 (a := Some (d\<lparr>lock_id := word_of_int next_lock_id\<rparr>))\<rparr>
                     in if info_data \<noteq> NULL then
                          (let s4 = s3\<lparr>trace := trace s3 @ [MUTEX_UNLOCK]\<rparr> in
                           if snprintf_defined 1 0 then
                             (case init_error LKSMITH_ERROR_CREATE_WHILE_IN_USE (Ptr a) s4 of
                                (rc, s') \<Rightarrow> Inr (rc, s', info_data))
                           else Inl (trace s4))
                        else Inr (0, s3\<lparr>trace := trace s3 @ [MUTEX_UNLOCK]\<rparr>,
                                  info_data)))))"

text \<open>
  The value a call returns, if it returns.
\<close>

definition returned :: "event list + int \<times> lksmith_state \<times> ptr \<Rightarrow> int option" where
  "returned res = (case res of Inl tr \<Rightarrow> None | Inr (rc, s', slot) \<Rightarrow> Some rc)"

subsection \<open>The lock, unlock and destroy wrappers\<close>

text \<open>
  Lines 215 to 235 of \<^verbatim>\<open>lksmith.c\<close> define
  \<^verbatim>\<open>lksmith_pthread_mutex_destroy\<close>, \<^verbatim>\<open>lksmith_pthread_mutex_trylock\<close>,
  \<^verbatim>\<open>lksmith_pthread_mutex_lock\<close>, \<^verbatim>\<open>lksmith_pthread_mutex_timedlock\<close> and
  \<^verbatim>\<open>lksmith_pthread_mutex_unlock\<close> with empty bodies: each returns at once, with no
  \<^verbatim>\<open>return\<close> statement and so no value, and leaves every part of the state as it
  was. The file has no per-thread hold-context and nothing that writes a before
  bitfield. \<open>mutex\<close> is the address of the handle passed.
\<close>

definition lksmith_pthread_mutex_lock :: "lksmith_state \<Rightarrow> nat \<Rightarrow> lksmith_state" where
  "lksmith_pthread_mutex_lock s mutex = s"

definition lksmith_pthread_mutex_unlock :: "lksmith_state \<Rightarrow> nat \<Rightarrow> lksmith_state" where
  "lksmith_pthread_mutex_unlock s mutex = s"

definition lksmith_pthread_mutex_trylock :: "lksmith_state \<Rightarrow> nat \<Rightarrow> int \<Rightarrow> lksmith_state" where
  "lksmith_pthread_mutex_trylock s mutex bypass = s"

definition lksmith_pthread_mutex_destroy :: "lksmith_state \<Rightarrow> nat \<Rightarrow> lksmith_state" where
  "lksmith_pthread_mutex_destroy s mutex = s"

subsection \<open>Facts about the version utilities\<close>






subsection \<open>Claims about the version utilities\<close>



text \<open>
  Claim C9. The \<open>ver\<close> argument has no influence: for any two version arguments and
  the same buffer length (and the same behaviour of the C library's formatter), the
  result code and the text written are the same. The text is always that of
  \<^verbatim>\<open>LKSMITH_API_VERSION\<close>.
\<close>

theorem verion_to_str_ignores_ver:
  "lksmith_verion_to_str api fails v1 str_len = lksmith_verion_to_str api fails v2 str_len \<and>
   snd (lksmith_verion_to_str api fails v1 str_len) =
     (if fails \<or> str_len = 0 then None
      else Some (take (unat str_len - 1) (version_text api)))"
  by (simp add: lksmith_verion_to_str_def c_snprintf_def)

subsection \<open>Facts about the identifier allocator\<close>

lemma BITFIELD_TEST_defined:
  assumes "0 \<le> i" "i < n" "nat (BITFIELD_MEM n) \<le> length bf"
  shows "\<exists>b. BITFIELD_TEST bf i = Some b"
proof -
  have "i div 8 < (n + 7) div 8" using assms(1,2) by arith
  then have "nat (i div 8) < length bf" using assms by (simp add: BITFIELD_MEM_def)
  then show ?thesis using assms(1) by (simp add: BITFIELD_TEST_def)
qed

lemma scan_locks_used_result:
  assumes "0 \<le> i" "i \<le> n" "nat (BITFIELD_MEM n) \<le> length bf"
  shows "\<exists>k. scan_locks_used bf n i = Some k \<and> i \<le> k \<and> k \<le> n \<and>
           (\<forall>j. i \<le> j \<and> j < k \<longrightarrow> BITFIELD_TEST bf j = Some True) \<and>
           (k < n \<longrightarrow> BITFIELD_TEST bf k = Some False)"
  using assms
proof (induction bf n i rule: scan_locks_used.induct)
  case (1 used n i)
  show ?case
  proof (cases "i < n")
    case False
    then show ?thesis using "1.prems" by (subst scan_locks_used.simps) auto
  next
    case True
    then obtain b where b: "BITFIELD_TEST used i = Some b"
      using BITFIELD_TEST_defined "1.prems" by blast
    show ?thesis
    proof (cases b)
      case False
      then show ?thesis using True b by (subst scan_locks_used.simps) auto
    next
      case bt: True
      then have "\<not> \<not> b" by simp
      from "1.IH" [OF True b this] "1.prems" True
      obtain k where k: "scan_locks_used used n (i + 1) = Some k" "i + 1 \<le> k" "k \<le> n"
        "\<forall>j. i + 1 \<le> j \<and> j < k \<longrightarrow> BITFIELD_TEST used j = Some True"
        "k < n \<longrightarrow> BITFIELD_TEST used k = Some False"
        by auto
      have "\<forall>j. i \<le> j \<and> j < k \<longrightarrow> BITFIELD_TEST used j = Some True"
      proof (intro allI impI)
        fix j assume "i \<le> j \<and> j < k"
        then have "j = i \<or> (i + 1 \<le> j \<and> j < k)" by arith
        then show "BITFIELD_TEST used j = Some True" using k(4) b bt by auto
      qed
      then show ?thesis using True b bt k by (subst scan_locks_used.simps) auto
    qed
  qed
qed

lemma BITFIELD_SET_length:
  "BITFIELD_SET bf i = Some bf' \<Longrightarrow> length bf' = length bf"
  by (auto simp: BITFIELD_SET_def split: if_splits)

lemma BITFIELD_SET_past_end:
  assumes "0 \<le> n" "n mod 8 = 0" "length bf = nat (BITFIELD_MEM n)"
  shows "BITFIELD_SET bf n = None"
proof -
  have "(n + 7) div 8 = n div 8" using assms(2) by presburger
  then show ?thesis using assms by (simp add: BITFIELD_SET_def BITFIELD_MEM_def)
qed

text \<open>
  As long as some bit below \<^verbatim>\<open>g_locks_size\<close> is clear, the allocator does return
  the lowest clear index, with its bit set and nothing else changed.
\<close>

lemma BITFIELD_SET_then_TEST:
  assumes "BITFIELD_SET bf i = Some bf'"
  shows "BITFIELD_TEST bf' i = Some True"
proof -
  from assms have i: "0 \<le> i" "nat (i div 8) < length bf"
    and bf': "bf' = bf[nat (i div 8) := set_bit (nat (i mod 8)) (bf ! nat (i div 8))]"
    by (auto simp: BITFIELD_SET_def split: if_splits)
  have "nat (i mod 8) < 8" by simp
  then have "bit (set_bit (nat (i mod 8)) (bf ! nat (i div 8))) (nat (i mod 8))"
    by (simp add: bit_set_bit_iff)
  then show ?thesis using i bf' by (simp add: BITFIELD_TEST_def)
qed

lemma alloc_next_lock_id_lowest_clear:
  assumes "registry_wf r" "\<not> all_used r"
  shows "\<exists>i used. lksmith_alloc_next_lock_id used_mem locks_mem r =
             Some (Inr i, r\<lparr>g_locks_used := used\<rparr>) \<and>
           0 \<le> i \<and> i < g_locks_size r \<and>
           BITFIELD_TEST (g_locks_used r) i = Some False \<and>
           (\<forall>j. 0 \<le> j \<and> j < i \<longrightarrow> BITFIELD_TEST (g_locks_used r) j = Some True) \<and>
           BITFIELD_TEST used i = Some True"
proof -
  from assms(1) have wf: "0 \<le> g_locks_size r"
    "nat (BITFIELD_MEM (g_locks_size r)) \<le> length (g_locks_used r)"
    by (simp_all add: registry_wf_def)
  from scan_locks_used_result [of 0 "g_locks_size r" "g_locks_used r"] wf
  obtain i where i: "scan_locks_used (g_locks_used r) (g_locks_size r) 0 = Some i"
    "0 \<le> i" "i \<le> g_locks_size r"
    "\<forall>j. 0 \<le> j \<and> j < i \<longrightarrow> BITFIELD_TEST (g_locks_used r) j = Some True"
    "i < g_locks_size r \<longrightarrow> BITFIELD_TEST (g_locks_used r) i = Some False"
    by auto
  have lt: "i < g_locks_size r"
  proof (rule ccontr)
    assume "\<not> i < g_locks_size r"
    then have "i = g_locks_size r" using i(3) by simp
    then have "all_used r" using i(4) by (simp add: all_used_def)
    then show False using assms(2) by simp
  qed
  have "i div 8 < (g_locks_size r + 7) div 8" using i(2) lt by arith
  moreover have "0 \<le> i div 8" using i(2) by simp
  ultimately have "nat (i div 8) < length (g_locks_used r)"
    using wf(2) unfolding BITFIELD_MEM_def by arith
  then obtain used where used: "BITFIELD_SET (g_locks_used r) i = Some used"
    using i(2) by (simp add: BITFIELD_SET_def)
  have "lksmith_alloc_next_lock_id used_mem locks_mem r =
      Some (Inr i, r\<lparr>g_locks_used := used\<rparr>)"
    using i(1,3) used by (simp add: lksmith_alloc_next_lock_id_def)
  then show ?thesis
    using i(2,4,5) lt BITFIELD_SET_then_TEST [OF used] by blast
qed

subsection \<open>Claims about the identifier allocator\<close>

text \<open>
  Claim C10. In \<^verbatim>\<open>lksmith_alloc_next_lock_id\<close>, on every well-formed registry, the
  scan loop ends with an index \<open>i\<close> that is at most \<^verbatim>\<open>g_locks_size\<close>, so the test
  \<^verbatim>\<open>i > g_locks_size\<close> is false and the growth branch is never entered: whatever the
  two calls of \<^verbatim>\<open>realloc\<close> would have done, the function goes straight to
  \<^verbatim>\<open>BITFIELD_SET(g_locks_used, i)\<close> on the unchanged registry. When every bit below
  \<^verbatim>\<open>g_locks_size\<close> is used, \<open>i\<close> is \<^verbatim>\<open>g_locks_size\<close> itself, one position past the
  capacity: if the call returns at all it returns that index with \<^verbatim>\<open>g_locks_size\<close>,
  the table and the length of the bitmap block as they were, and when
  \<^verbatim>\<open>g_locks_size\<close> is a multiple of 8 the write is outside the bitmap block.
\<close>

theorem alloc_next_lock_id_never_grows:
  assumes "registry_wf r"
  shows "\<exists>i. scan_locks_used (g_locks_used r) (g_locks_size r) 0 = Some i \<and>
           i \<le> g_locks_size r \<and> \<not> i > g_locks_size r \<and>
           lksmith_alloc_next_lock_id used_mem locks_mem r =
             (case BITFIELD_SET (g_locks_used r) i of
                None \<Rightarrow> None
              | Some used \<Rightarrow> Some (Inr i, r\<lparr>g_locks_used := used\<rparr>)) \<and>
           (all_used r \<longrightarrow>
              i = g_locks_size r \<and>
              (g_locks_size r mod 8 = 0 \<longrightarrow>
                 lksmith_alloc_next_lock_id used_mem locks_mem r = None) \<and>
              (\<forall>res r'. lksmith_alloc_next_lock_id used_mem locks_mem r = Some (res, r') \<longrightarrow>
                 res = Inr (g_locks_size r) \<and> g_locks_size r' = g_locks_size r \<and>
                 g_locks r' = g_locks r \<and>
                 length (g_locks_used r') = length (g_locks_used r)))"
proof -
  from assms have wf: "0 \<le> g_locks_size r"
    "nat (BITFIELD_MEM (g_locks_size r)) \<le> length (g_locks_used r)"
    "length (g_locks_used r) = nat (BITFIELD_MEM (g_locks_size r))"
    by (simp_all add: registry_wf_def)
  from scan_locks_used_result [of 0 "g_locks_size r" "g_locks_used r"] wf
  obtain i where i: "scan_locks_used (g_locks_used r) (g_locks_size r) 0 = Some i"
    "0 \<le> i" "i \<le> g_locks_size r"
    "\<forall>j. 0 \<le> j \<and> j < i \<longrightarrow> BITFIELD_TEST (g_locks_used r) j = Some True"
    "i < g_locks_size r \<longrightarrow> BITFIELD_TEST (g_locks_used r) i = Some False"
    by auto
  have alloc: "lksmith_alloc_next_lock_id used_mem locks_mem r =
      (case BITFIELD_SET (g_locks_used r) i of
         None \<Rightarrow> None
       | Some used \<Rightarrow> Some (Inr i, r\<lparr>g_locks_used := used\<rparr>))"
    using i(1,3) by (simp add: lksmith_alloc_next_lock_id_def)
  have full: "i = g_locks_size r" if "all_used r"
  proof (rule ccontr)
    assume "i \<noteq> g_locks_size r"
    then have lt: "i < g_locks_size r" using i(3) by simp
    then have "BITFIELD_TEST (g_locks_used r) i = Some True"
      using that i(2) by (simp add: all_used_def)
    then show False using i(5) lt by simp
  qed
  have past: "lksmith_alloc_next_lock_id used_mem locks_mem r = None"
    if "all_used r" "g_locks_size r mod 8 = 0"
    using alloc full [OF that(1)] BITFIELD_SET_past_end [OF wf(1) that(2) wf(3)] by simp
  have same: "res = Inr (g_locks_size r) \<and> g_locks_size r' = g_locks_size r \<and>
      g_locks r' = g_locks r \<and> length (g_locks_used r') = length (g_locks_used r)"
    if "all_used r" "lksmith_alloc_next_lock_id used_mem locks_mem r = Some (res, r')"
    for res r'
  proof -
    have "lksmith_alloc_next_lock_id used_mem locks_mem r =
      (case BITFIELD_SET (g_locks_used r) (g_locks_size r) of
         None \<Rightarrow> None
       | Some used \<Rightarrow> Some (Inr (g_locks_size r), r\<lparr>g_locks_used := used\<rparr>))"
      using alloc unfolding full [OF that(1)] .
    with that(2)
    have eq: "(case BITFIELD_SET (g_locks_used r) (g_locks_size r) of
         None \<Rightarrow> None
       | Some used \<Rightarrow> Some (Inr (g_locks_size r), r\<lparr>g_locks_used := used\<rparr>)) = Some (res, r')"
      by simp
    then obtain used where u: "BITFIELD_SET (g_locks_used r) (g_locks_size r) = Some used"
      by (cases "BITFIELD_SET (g_locks_used r) (g_locks_size r)") simp_all
    with eq have "res = Inr (g_locks_size r)" "r' = r\<lparr>g_locks_used := used\<rparr>" by simp_all
    then show ?thesis using BITFIELD_SET_length [OF u] by simp
  qed
  have no: "\<not> i > g_locks_size r" using i(3) by simp
  have tail: "all_used r \<longrightarrow>
      i = g_locks_size r \<and>
      (g_locks_size r mod 8 = 0 \<longrightarrow>
         lksmith_alloc_next_lock_id used_mem locks_mem r = None) \<and>
      (\<forall>res r'. lksmith_alloc_next_lock_id used_mem locks_mem r = Some (res, r') \<longrightarrow>
         res = Inr (g_locks_size r) \<and> g_locks_size r' = g_locks_size r \<and>
         g_locks r' = g_locks r \<and>
         length (g_locks_used r') = length (g_locks_used r))"
  proof
    assume u: "all_used r"
    have a: "i = g_locks_size r" by (rule full [OF u])
    have b: "g_locks_size r mod 8 = 0 \<longrightarrow>
        lksmith_alloc_next_lock_id used_mem locks_mem r = None"
      by (intro impI) (rule past [OF u])
    have c: "\<forall>res r'. lksmith_alloc_next_lock_id used_mem locks_mem r = Some (res, r') \<longrightarrow>
        res = Inr (g_locks_size r) \<and> g_locks_size r' = g_locks_size r \<and>
        g_locks r' = g_locks r \<and>
        length (g_locks_used r') = length (g_locks_used r)"
      by (intro allI impI) (rule same [OF u])
    show "i = g_locks_size r \<and>
      (g_locks_size r mod 8 = 0 \<longrightarrow>
         lksmith_alloc_next_lock_id used_mem locks_mem r = None) \<and>
      (\<forall>res r'. lksmith_alloc_next_lock_id used_mem locks_mem r = Some (res, r') \<longrightarrow>
         res = Inr (g_locks_size r) \<and> g_locks_size r' = g_locks_size r \<and>
         g_locks r' = g_locks r \<and>
         length (g_locks_used r') = length (g_locks_used r))"
      using a b c by (intro conjI)
  qed
  show ?thesis
    by (rule exI [of _ i]) (intro conjI i(1) i(3) no alloc tail)
qed


text \<open>
  The theorem at a registry of capacity 1 whose only bit is used: the call returns
  the id 1 and leaves a table of one slot, although both calls of \<^verbatim>\<open>realloc\<close> would
  have failed.
\<close>

theorem alloc_next_lock_id_never_grows_witness:
  "registry_wf \<lparr>g_locks = [Ptr 1], g_locks_size = 1, g_locks_used = [1]\<rparr> \<and>
   all_used \<lparr>g_locks = [Ptr 1], g_locks_size = 1, g_locks_used = [1]\<rparr> \<and>
   (\<exists>r'. lksmith_alloc_next_lock_id None None
            \<lparr>g_locks = [Ptr 1], g_locks_size = 1, g_locks_used = [1]\<rparr> = Some (Inr 1, r') \<and>
          g_locks_size r' = 1 \<and> g_locks r' = [Ptr 1] \<and> length (g_locks_used r') = 1)"
proof -
  let ?r = "\<lparr>g_locks = [Ptr 1], g_locks_size = 1, g_locks_used = [1]\<rparr>"
  have wf: "registry_wf ?r" by (simp add: registry_wf_def BITFIELD_MEM_def)
  have "\<forall>j \<in> {0 ..< 1 :: int}. j = 0" by auto
  then have used: "all_used ?r" by (simp add: all_used_def BITFIELD_TEST_def)
  have set: "BITFIELD_SET [1] 1 \<noteq> None" by (simp add: BITFIELD_SET_def)
  have "g_locks_size ?r = 1" by simp
  with alloc_next_lock_id_never_grows [OF wf, of None None] used
  have "\<forall>res r'. lksmith_alloc_next_lock_id None None ?r = Some (res, r') \<longrightarrow>
      res = Inr 1 \<and> g_locks_size r' = 1 \<and> g_locks r' = [Ptr 1] \<and>
      length (g_locks_used r') = 1"
    and "lksmith_alloc_next_lock_id None None ?r =
      (case BITFIELD_SET [1] 1 of None \<Rightarrow> None
       | Some used \<Rightarrow> Some (Inr 1, ?r\<lparr>g_locks_used := used\<rparr>))"
    by auto
  then show ?thesis using wf used set by (cases "BITFIELD_SET [1] 1") auto
qed

text \<open>
  Claim C3. The allocator returns the lowest clear index, with its bit set; when every
  bit within \<^verbatim>\<open>g_locks_size\<close> is set it is to grow the bitmap and the table for one
  more slot and never to return an index it has no capacity for. The code does not
  grow: at the registry of capacity 1 with its bit used, and with an allocator that
  would serve both calls of \<^verbatim>\<open>realloc\<close>, it returns the index 1 while
  \<^verbatim>\<open>g_locks_size\<close> stays 1 and the table keeps its single slot; at a registry of
  capacity 8 with all eight bits used it writes past the one byte of the bitmap, and
  at the registry of a freshly started process, of capacity 0, it writes through the
  NULL bitmap pointer.
\<close>

theorem alloc_next_lock_id_full_registry:
  "lksmith_alloc_next_lock_id (Some (\<lambda>k. 0)) (Some (\<lambda>k. NULL))
     \<lparr>g_locks = [Ptr 1], g_locks_size = 1, g_locks_used = [1]\<rparr> =
     Some (Inr 1, \<lparr>g_locks = [Ptr 1], g_locks_size = 1, g_locks_used = [3]\<rparr>) \<and>
   lksmith_alloc_next_lock_id (Some (\<lambda>k. 0)) (Some (\<lambda>k. NULL))
     \<lparr>g_locks = [Ptr 1, Ptr 2, Ptr 3, Ptr 4, Ptr 5, Ptr 6, Ptr 7, Ptr 8],
      g_locks_size = 8, g_locks_used = [255]\<rparr> = None \<and>
   lksmith_alloc_next_lock_id (Some (\<lambda>k. 0)) (Some (\<lambda>k. NULL)) registry_init = None"
proof -
  have s1: "scan_locks_used [1] 1 0 = Some 1"
    by (simp add: scan_locks_used.simps BITFIELD_TEST_def)
  have s8: "scan_locks_used [255] 8 0 = Some 8"
    by code_simp
  have s0: "scan_locks_used [] 0 0 = Some 0"
    by (simp add: scan_locks_used.simps)
  show ?thesis
    by (simp add: lksmith_alloc_next_lock_id_def s0 s1 s8 BITFIELD_SET_def set_bit_eq
        registry_init_def)
qed



subsection \<open>Facts about lock records and initialisation\<close>


lemma alloc_registry_init:
  "lksmith_alloc_next_lock_id used_mem locks_mem registry_init = None"
proof -
  have "scan_locks_used [] 0 0 = Some 0" by (simp add: scan_locks_used.simps)
  then show ?thesis
    by (simp add: lksmith_alloc_next_lock_id_def registry_init_def BITFIELD_SET_def)
qed



lemma init_fresh_process:
  "lksmith_pthread_mutex_init used_mem locks_mem data_mem fresh_process info_data =
     Inl [MUTEX_LOCK]"
  by (simp add: lksmith_pthread_mutex_init_def fresh_process_def alloc_registry_init Let_def)

subsection \<open>Claims about lock records and initialisation\<close>

text \<open>
  Claim C6. \<^verbatim>\<open>lksmith_realloc_lock_data\<close> is to create, from the NULL record, a record
  with a zeroed before bitfield of \<^verbatim>\<open>LKSMITH_BEFORE_MIN\<close> bits, and to grow a record
  keeping its bits. It does neither: whatever the allocator would do, the call of
  line 180 (the NULL record and \<^verbatim>\<open>LKSMITH_BEFORE_MIN\<close>) has undefined behaviour, and so
  has a call for any other record and size, because \<^verbatim>\<open>realloc\<close> is handed the
  address of the caller's pointer variable.
\<close>

theorem realloc_lock_data_undefined:
  "lksmith_realloc_lock_data mem None LKSMITH_BEFORE_MIN = None \<and>
   lksmith_realloc_lock_data mem data new_before_size = None"
  by (simp add: lksmith_realloc_lock_data_def c_realloc_block_def Let_def)

text \<open>
  Claim C5. \<^verbatim>\<open>lksmith_pthread_mutex_init\<close> is to return \<^verbatim>\<open>EBUSY\<close> when the handle
  already carries a record, \<^verbatim>\<open>ENOMEM\<close> when an allocation fails and 0 otherwise, with
  the record attached. In no state, for no allocator and no handle, does the call
  return 0 or \<^verbatim>\<open>EBUSY\<close>; and in a freshly started process it does not return at all,
  whatever the handle holds and whether or not the allocations would succeed.
\<close>

theorem mutex_init_never_succeeds:
  "returned (lksmith_pthread_mutex_init used_mem locks_mem data_mem s info_data) \<noteq> Some 0 \<and>
   returned (lksmith_pthread_mutex_init used_mem locks_mem data_mem s info_data) \<noteq>
     Some EBUSY \<and>
   returned (lksmith_pthread_mutex_init used_mem locks_mem data_mem fresh_process info_data) =
     None"
proof -
  have "returned (lksmith_pthread_mutex_init used_mem locks_mem data_mem s info_data) = None \<or>
      returned (lksmith_pthread_mutex_init used_mem locks_mem data_mem s info_data) =
        Some ENOMEM"
    by (auto simp: lksmith_pthread_mutex_init_def lksmith_realloc_lock_data_def
        c_realloc_block_def init_error_def returned_def Let_def
        split: option.splits sum.splits)
  then show ?thesis
    by (auto simp: ENOMEM_def EBUSY_def init_fresh_process returned_def)
qed





subsection \<open>Claims about order tracking\<close>

text \<open>
  Claim C1. After threads have acquired lock \<open>A\<close> and then lock \<open>B\<close>, an acquisition
  of \<open>A\<close> by a thread that holds \<open>B\<close> is to make exactly one
  \<^verbatim>\<open>LOCK_ORDER_VIOLATION\<close> report. With the wrappers of \<^verbatim>\<open>lksmith.c\<close> the whole
  sequence (lock \<open>A\<close>, lock \<open>B\<close>, unlock \<open>B\<close>, unlock \<open>A\<close>, then lock \<open>B\<close>, lock \<open>A\<close>)
  leaves the state as it was: the error callback is not called, and no lock record,
  and so no before bitfield and no lock count, has changed.
\<close>

theorem mutex_lock_makes_no_report:
  "lksmith_pthread_mutex_lock
     (lksmith_pthread_mutex_lock
        (lksmith_pthread_mutex_unlock
           (lksmith_pthread_mutex_unlock
              (lksmith_pthread_mutex_lock (lksmith_pthread_mutex_lock s A) B) B) A) B) A = s \<and>
   trace (lksmith_pthread_mutex_lock (lksmith_pthread_mutex_lock s B) A) = trace s \<and>
   heap (lksmith_pthread_mutex_lock (lksmith_pthread_mutex_lock s B) A) = heap s"
  by (simp add: lksmith_pthread_mutex_lock_def lksmith_pthread_mutex_unlock_def)

end
